theory Spec2Isabelle
  imports Main
begin

section \<open>The grid container of \<^verbatim>\<open>10_FriendFunctionTemplates/Grid.h\<close>\<close>

text \<open>
  \<^verbatim>\<open>Grid<T>\<close> keeps a table \<^verbatim>\<open>std::vector<std::vector<std::optional<T>>> mCells\<close>
  (a vector of columns, indexed \<^verbatim>\<open>mCells[x][y]\<close>) and two \<^verbatim>\<open>size_t\<close> fields
  \<^verbatim>\<open>mWidth\<close>, \<^verbatim>\<open>mHeight\<close>. A vector is a value type: it is modelled as a list, an optional
  as an \<open>option\<close>. The sizes are natural numbers: the code never computes with them
  beyond comparing and counting up to a bound, so no wrap-around is reachable.

  A vector refuses a length above its \<^verbatim>\<open>max_size()\<close>. That number is fixed by the
  implementation and by the element type, not by the header: it is a parameter of the
  model, one for the table (a vector of columns) and one for a column (a vector of
  cells). Below these limits storage is taken as unbounded: an allocation that fails is
  outside the model. The element type is a type with an addition, a total function;
  copying an element does not fail.
\<close>

subsection \<open>Outcomes of a call\<close>

text \<open>
  The header throws \<^verbatim>\<open>std::out_of_range\<close> itself. It calls \<^verbatim>\<open>value()\<close> of an
  optional, which throws \<^verbatim>\<open>std::bad_optional_access\<close> on an empty one, and
  \<^verbatim>\<open>resize\<close> of a vector, which throws \<^verbatim>\<open>std::length_error\<close> for a length above
  \<^verbatim>\<open>max_size()\<close>. A call either returns, throws, or has undefined behaviour:
  \<^verbatim>\<open>operator[]\<close> of a vector does not check its index, and outside the vector the
  language gives the program no meaning.
\<close>

datatype error = out_of_range | bad_optional_access | length_error

datatype 'a result = Returns 'a | Throws error | Undefined

fun result_bind :: "'a result \<Rightarrow> ('a \<Rightarrow> 'b result) \<Rightarrow> 'b result" where
  "result_bind (Returns a) f = f a"
| "result_bind (Throws e) f = Throws e"
| "result_bind Undefined f = Undefined"

subsection \<open>The vector operations the header uses\<close>

text \<open>
  The \<^verbatim>\<open>max_size()\<close> of the two vector types of the class: of the table
  \<^verbatim>\<open>std::vector<std::vector<std::optional<T>>>\<close> and of a column
  \<^verbatim>\<open>std::vector<std::optional<T>>\<close>.
\<close>

record limits =
  table_max_size :: nat
  column_max_size :: nat

text \<open>
  \<^verbatim>\<open>v.resize(n)\<close>: throws for \<open>n\<close> above \<open>max_size\<close>; otherwise keeps the first \<open>n\<close>
  elements and appends value-initialised ones.
\<close>

definition resize :: "nat \<Rightarrow> 'a \<Rightarrow> 'a list \<Rightarrow> nat \<Rightarrow> 'a list result" where
  "resize max_size dflt v n =
     (if n > max_size then Throws length_error
      else Returns (take n v @ replicate (n - length v) dflt))"

text \<open>\<^verbatim>\<open>v[i]\<close>: unchecked.\<close>

definition subscript :: "'a list \<Rightarrow> nat \<Rightarrow> 'a result" where
  "subscript v i = (if i < length v then Returns (v ! i) else Undefined)"

subsection \<open>The optional operations the header uses\<close>

definition has_value :: "'a option \<Rightarrow> bool" where
  "has_value opt = (opt \<noteq> None)"

definition optional_value :: "'a option \<Rightarrow> 'a result" where
  "optional_value opt = (case opt of Some v \<Rightarrow> Returns v | None \<Rightarrow> Throws bad_optional_access)"

subsection \<open>The class\<close>

record 'a Grid =
  mCells :: "'a option list list"
  mWidth :: nat
  mHeight :: nat

definition kDefaultWidth :: nat where
  "kDefaultWidth = 10"

definition kDefaultHeight :: nat where
  "kDefaultHeight = 10"

text \<open>
  The constructor resizes the table to \<open>width\<close> columns and then, in a loop over the
  columns, every column to \<open>height\<close> cells. An exception of a \<^verbatim>\<open>resize\<close> leaves the
  constructor: there is no grid then.
\<close>

fun resize_columns :: "nat \<Rightarrow> 'a option list list \<Rightarrow> nat \<Rightarrow> 'a option list list result" where
  "resize_columns max_size [] n = Returns []"
| "resize_columns max_size (column # columns) n =
     result_bind (resize max_size None column n) (\<lambda>column'.
     result_bind (resize_columns max_size columns n) (\<lambda>columns'.
       Returns (column' # columns')))"

definition Grid :: "limits \<Rightarrow> nat \<Rightarrow> nat \<Rightarrow> 'a Grid result" where
  "Grid lim width height =
     result_bind (resize (table_max_size lim) [] [] width) (\<lambda>cells.
     result_bind (resize_columns (column_max_size lim) cells height) (\<lambda>cells'.
       Returns \<lparr>mCells = cells', mWidth = width, mHeight = height\<rparr>))"

definition Grid_default :: "limits \<Rightarrow> 'a Grid result" where
  "Grid_default lim = Grid lim kDefaultWidth kDefaultHeight"

definition getHeight :: "'a Grid \<Rightarrow> nat" where
  "getHeight g = mHeight g"

definition getWidth :: "'a Grid \<Rightarrow> nat" where
  "getWidth g = mWidth g"

definition verifyCoordinate :: "'a Grid \<Rightarrow> nat \<Rightarrow> nat \<Rightarrow> unit result" where
  "verifyCoordinate g x y =
     (if x \<ge> mWidth g \<or> y \<ge> mHeight g then Throws out_of_range else Returns ())"

text \<open>
  A reference to a cell of a grid's table is the place of the cell: its column and its
  position in the column. \<open>element\<close> is the read \<^verbatim>\<open>cells[x][y]\<close>; \<open>cell_ref_of\<close> forms
  the reference \<^verbatim>\<open>cells[x][y]\<close>, which is undefined under the same conditions.
\<close>

datatype cell_ref = CellRef nat nat

definition element :: "'a list list \<Rightarrow> nat \<Rightarrow> nat \<Rightarrow> 'a result" where
  "element cells x y = result_bind (subscript cells x) (\<lambda>column. subscript column y)"

definition cell_ref_of :: "'a list list \<Rightarrow> nat \<Rightarrow> nat \<Rightarrow> cell_ref result" where
  "cell_ref_of cells x y = result_bind (element cells x y) (\<lambda>_. Returns (CellRef x y))"

text \<open>Reading and writing through a reference into the table of \<open>g\<close>.\<close>

fun deref :: "'a Grid \<Rightarrow> cell_ref \<Rightarrow> 'a option" where
  "deref g (CellRef x y) = mCells g ! x ! y"

fun assign_ref :: "'a Grid \<Rightarrow> cell_ref \<Rightarrow> 'a option \<Rightarrow> 'a Grid" where
  "assign_ref g (CellRef x y) v = g\<lparr>mCells := (mCells g)[x := (mCells g ! x)[y := v]]\<rparr>"

text \<open>
  The read-only overload of \<^verbatim>\<open>at\<close> is a \<^verbatim>\<open>const\<close> member: a function of the grid.
  The mutable overload is not \<^verbatim>\<open>const\<close>: it is modelled with the state of the grid
  after the call as second component. Its body calls the read-only overload on
  \<^verbatim>\<open>std::as_const(*this)\<close> and casts the reference.
\<close>

definition at_const :: "'a Grid \<Rightarrow> nat \<Rightarrow> nat \<Rightarrow> cell_ref result" where
  "at_const g x y =
     result_bind (verifyCoordinate g x y) (\<lambda>_. cell_ref_of (mCells g) x y)"

definition at :: "'a Grid \<Rightarrow> nat \<Rightarrow> nat \<Rightarrow> cell_ref result \<times> 'a Grid" where
  "at g x y = (at_const g x y, g)"

text \<open>
  The statement \<^verbatim>\<open>g.at(x, y) = v;\<close>: the assignment runs only when \<^verbatim>\<open>at\<close> has
  returned.
\<close>

definition at_assign :: "'a Grid \<Rightarrow> nat \<Rightarrow> nat \<Rightarrow> 'a option \<Rightarrow> unit result \<times> 'a Grid" where
  "at_assign g x y v =
     (case at g x y of
        (Returns r, g') \<Rightarrow> (Returns (), assign_ref g' r v)
      | (Throws e, g') \<Rightarrow> (Throws e, g')
      | (Undefined, g') \<Rightarrow> (Undefined, g'))"

subsection \<open>Copying and moving\<close>

text \<open>
  All four are defaulted in the class: they copy or move member by member. Copying a
  vector copies its elements; moving a \<^verbatim>\<open>size_t\<close> copies it. The vector a move
  constructor has moved from is empty; the one a move assignment has moved from is in
  a state the language leaves open, here the parameter \<open>leftover\<close>.
\<close>

definition copy_ctor :: "'a Grid \<Rightarrow> 'a Grid" where
  "copy_ctor src = \<lparr>mCells = mCells src, mWidth = mWidth src, mHeight = mHeight src\<rparr>"

text \<open>\<^verbatim>\<open>lhs = rhs;\<close> the result is the new state of \<open>lhs\<close>.\<close>

definition copy_assign :: "'a Grid \<Rightarrow> 'a Grid \<Rightarrow> 'a Grid" where
  "copy_assign lhs rhs = lhs\<lparr>mCells := mCells rhs, mWidth := mWidth rhs, mHeight := mHeight rhs\<rparr>"

text \<open>\<^verbatim>\<open>Grid<T> g(std::move(src));\<close> the new grid, and the state \<open>src\<close> is left in.\<close>

definition move_ctor :: "'a Grid \<Rightarrow> 'a Grid \<times> 'a Grid" where
  "move_ctor src =
     (\<lparr>mCells = mCells src, mWidth = mWidth src, mHeight = mHeight src\<rparr>,
      src\<lparr>mCells := []\<rparr>)"

text \<open>\<^verbatim>\<open>lhs = std::move(rhs);\<close> the new states of \<open>lhs\<close> and of \<open>rhs\<close>.\<close>

definition move_assign ::
  "'a option list list \<Rightarrow> 'a Grid \<Rightarrow> 'a Grid \<Rightarrow> 'a Grid \<times> 'a Grid" where
  "move_assign leftover lhs rhs =
     (lhs\<lparr>mCells := mCells rhs, mWidth := mWidth rhs, mHeight := mHeight rhs\<rparr>,
      rhs\<lparr>mCells := leftover\<rparr>)"

subsection \<open>The friend \<^verbatim>\<open>operator+\<close>\<close>

text \<open>
  \<open>result\<close> is a local variable of \<^verbatim>\<open>operator+\<close>: when a statement on it returns, the
  function goes on with its new state; when it throws, the exception leaves the function.
\<close>

fun continue_with :: "unit result \<times> 's \<Rightarrow> 's result" where
  "continue_with (Returns _, s) = Returns s"
| "continue_with (Throws e, s) = Throws e"
| "continue_with (Undefined, s) = Undefined"

text \<open>
  The body of the inner loop, at \<open>(x, y)\<close>. The operands are read through
  \<^verbatim>\<open>mCells[x][y]\<close>, unchecked; the result is written through \<^verbatim>\<open>at\<close>, after the sum
  has been computed.
\<close>

definition plus_cell :: "'a::plus Grid \<Rightarrow> 'a Grid \<Rightarrow> nat \<Rightarrow> nat \<Rightarrow> 'a Grid \<Rightarrow> 'a Grid result" where
  "plus_cell lhs rhs x y result =
     result_bind (element (mCells lhs) x y) (\<lambda>leftElement.
     result_bind (element (mCells rhs) x y) (\<lambda>rightElement.
       if has_value leftElement \<and> has_value rightElement then
         result_bind (optional_value leftElement) (\<lambda>l.
         result_bind (optional_value rightElement) (\<lambda>r.
           continue_with (at_assign result x y (Some (l + r)))))
       else Returns result))"

text \<open>
  The inner loop runs \<open>x\<close> up to \<open>minWidth\<close> in row \<open>y\<close>; the outer loop runs \<open>y\<close> up
  to \<open>minHeight\<close>.
\<close>

function plus_inner ::
  "'a::plus Grid \<Rightarrow> 'a Grid \<Rightarrow> nat \<Rightarrow> nat \<Rightarrow> nat \<Rightarrow> 'a Grid \<Rightarrow> 'a Grid result" where
  "plus_inner lhs rhs minWidth y x result =
     (if x < minWidth then
        result_bind (plus_cell lhs rhs x y result) (\<lambda>result'.
          plus_inner lhs rhs minWidth y (Suc x) result')
      else Returns result)"
  by pat_completeness auto
termination
  by (relation "measure (\<lambda>(lhs, rhs, minWidth, y, x, result). minWidth - x)") auto

function plus_outer ::
  "'a::plus Grid \<Rightarrow> 'a Grid \<Rightarrow> nat \<Rightarrow> nat \<Rightarrow> nat \<Rightarrow> 'a Grid \<Rightarrow> 'a Grid result" where
  "plus_outer lhs rhs minWidth minHeight y result =
     (if y < minHeight then
        result_bind (plus_inner lhs rhs minWidth y 0 result) (\<lambda>result'.
          plus_outer lhs rhs minWidth minHeight (Suc y) result')
      else Returns result)"
  by pat_completeness auto
termination
  by (relation "measure (\<lambda>(lhs, rhs, minWidth, minHeight, y, result). minHeight - y)") auto

definition operator_plus :: "limits \<Rightarrow> 'a::plus Grid \<Rightarrow> 'a Grid \<Rightarrow> 'a Grid result" where
  "operator_plus lim lhs rhs =
     (let minWidth = min (getWidth lhs) (getWidth rhs);
          minHeight = min (getHeight lhs) (getHeight rhs)
      in result_bind (Grid lim minWidth minHeight) (\<lambda>result.
           plus_outer lhs rhs minWidth minHeight 0 result))"

subsection \<open>The shape of a grid\<close>

text \<open>
  The table has \<open>mWidth\<close> columns of \<open>mHeight\<close> cells each. \<open>cell g x y\<close> is the cell at
  \<open>(x, y)\<close> of such a grid.
\<close>

definition grid_inv :: "'a Grid \<Rightarrow> bool" where
  "grid_inv g \<longleftrightarrow>
     length (mCells g) = mWidth g \<and>
     list_all (\<lambda>column. length column = mHeight g) (mCells g)"

definition cell :: "'a Grid \<Rightarrow> nat \<Rightarrow> nat \<Rightarrow> 'a option" where
  "cell g x y = mCells g ! x ! y"

text \<open>
  What the loop body leaves in the result cell: the sum when both operand cells hold a
  value, the cell as it was otherwise.
\<close>

definition sum_cell :: "'a::plus option \<Rightarrow> 'a option \<Rightarrow> 'a option \<Rightarrow> 'a option" where
  "sum_cell l r old =
     (case l of None \<Rightarrow> old | Some a \<Rightarrow> (case r of None \<Rightarrow> old | Some b \<Rightarrow> Some (a + b)))"

text \<open>\<open>g'\<close> has a table of the shape its dimensions say, and the dimensions of \<open>g\<close>.\<close>

definition same_shape :: "'a Grid \<Rightarrow> 'a Grid \<Rightarrow> bool" where
  "same_shape g g' \<longleftrightarrow> grid_inv g' \<and> mWidth g' = mWidth g \<and> mHeight g' = mHeight g"

text \<open>
  The vectors of a grid hold no more elements than their \<^verbatim>\<open>max_size()\<close>, as every
  vector of a running program does.
\<close>

definition within :: "limits \<Rightarrow> 'a Grid \<Rightarrow> bool" where
  "within lim g \<longleftrightarrow>
     length (mCells g) \<le> table_max_size lim \<and>
     list_all (\<lambda>column. length column \<le> column_max_size lim) (mCells g)"

text \<open>
  The dimensions the two \<^verbatim>\<open>resize\<close> steps of the constructor accept: the width within
  the limit of the table and, unless there is no column to resize, the height within the
  limit of a column.
\<close>

definition constructible :: "limits \<Rightarrow> nat \<Rightarrow> nat \<Rightarrow> bool" where
  "constructible lim w h \<longleftrightarrow> w \<le> table_max_size lim \<and> (w = 0 \<or> h \<le> column_max_size lim)"

subsection \<open>Several grids in one program\<close>

text \<open>
  A program state with several grid objects, named by numbers. Each object holds its
  table by value, as the class holds its vector member by value.
  \<open>store_copy_ctor b a\<close> is \<^verbatim>\<open>Grid<T> b(a);\<close> and \<open>store_at_assign obj x y v\<close> is
  \<^verbatim>\<open>obj.at(x, y) = v;\<close>.
\<close>

type_synonym 'a store = "nat \<Rightarrow> 'a Grid"

definition store_copy_ctor :: "nat \<Rightarrow> nat \<Rightarrow> 'a store \<Rightarrow> 'a store" where
  "store_copy_ctor b a s = s(b := copy_ctor (s a))"

definition store_at_assign ::
  "nat \<Rightarrow> nat \<Rightarrow> nat \<Rightarrow> 'a option \<Rightarrow> 'a store \<Rightarrow> unit result \<times> 'a store" where
  "store_at_assign obj x y v s =
     (case at_assign (s obj) x y v of (r, g') \<Rightarrow> (r, s(obj := g')))"

subsection \<open>Example grids\<close>

text \<open>
  The limits of one implementation for \<^verbatim>\<open>Grid<int>\<close>: 64-bit sizes, \<^verbatim>\<open>max_size()\<close> the
  largest \<^verbatim>\<open>ptrdiff_t\<close> divided by the size of an element, 24 bytes for a column and
  8 bytes for a cell.
\<close>

definition SIZE_MAX :: nat where
  "SIZE_MAX = 18446744073709551615"

definition example_limits :: limits where
  "example_limits =
     \<lparr>table_max_size = 384307168202282325, column_max_size = 1152921504606846975\<rparr>"

text \<open>The grid of the given size with every cell absent.\<close>

definition blank :: "nat \<Rightarrow> nat \<Rightarrow> 'a Grid" where
  "blank w h = \<lparr>mCells = replicate w (replicate h None), mWidth = w, mHeight = h\<rparr>"

text \<open>The grid of the given size with every cell present and equal to \<open>v\<close>.\<close>

definition filled :: "nat \<Rightarrow> nat \<Rightarrow> 'a \<Rightarrow> 'a Grid" where
  "filled w h v = \<lparr>mCells = replicate w (replicate h (Some v)), mWidth = w, mHeight = h\<rparr>"

section \<open>Basic facts\<close>

declare plus_inner.simps [simp del] plus_outer.simps [simp del]

lemma resize_columns_replicate:
  "resize_columns m (replicate w []) h =
     (if w = 0 \<or> h \<le> m then Returns (replicate w (replicate h None)) else Throws length_error)"
  by (induction w) (auto simp add: resize_def)

lemma Grid_eq:
  "Grid lim w h = (if constructible lim w h then Returns (blank w h) else Throws length_error)"
  by (auto simp add: Grid_def resize_def resize_columns_replicate constructible_def blank_def)

lemma Grid_Returns: "Grid lim w h = Returns g \<Longrightarrow> constructible lim w h \<and> g = blank w h"
  by (simp add: Grid_eq split: if_splits)

lemma mWidth_blank: "mWidth (blank w h) = w" and mHeight_blank: "mHeight (blank w h) = h"
  by (simp_all add: blank_def)

lemma grid_inv_blank: "grid_inv (blank w h)"
  by (simp add: grid_inv_def blank_def list_all_iff)

lemma within_blank: "constructible lim w h \<Longrightarrow> within lim (blank w h)"
  by (auto simp add: within_def blank_def constructible_def list_all_iff)

lemma within_filled: "constructible lim w h \<Longrightarrow> within lim (filled w h v)"
  by (auto simp add: within_def filled_def constructible_def list_all_iff)

lemma cell_blank: "x < w \<Longrightarrow> y < h \<Longrightarrow> cell (blank w h) x y = None"
  by (simp add: cell_def blank_def)

lemma column_height:
  assumes "grid_inv g" and "0 < mWidth g"
  shows "\<exists>column \<in> set (mCells g). length column = mHeight g"
proof -
  from assms have "mCells g \<noteq> []"
    by (auto simp add: grid_inv_def)
  then obtain column columns where "mCells g = column # columns"
    by (cases "mCells g") auto
  with assms(1) show ?thesis
    by (auto simp add: grid_inv_def)
qed

lemma within_height:
  assumes "grid_inv g" and "within lim g" and "0 < mWidth g"
  shows "mHeight g \<le> column_max_size lim"
  using column_height [OF assms(1,3)] assms(2)
  by (auto simp add: within_def list_all_iff)

lemma within_constructible:
  assumes "grid_inv lhs" and "grid_inv rhs" and "within lim lhs" and "within lim rhs"
  shows "constructible lim (min (mWidth lhs) (mWidth rhs)) (min (mHeight lhs) (mHeight rhs))"
proof -
  let ?w = "min (mWidth lhs) (mWidth rhs)" and ?h = "min (mHeight lhs) (mHeight rhs)"
  from assms(1,3) have "mWidth lhs \<le> table_max_size lim"
    by (simp add: grid_inv_def within_def)
  then have w: "?w \<le> table_max_size lim"
    by simp
  have "?h \<le> column_max_size lim" if "?w \<noteq> 0"
  proof -
    from that have "0 < mWidth lhs" by simp
    then have "mHeight lhs \<le> column_max_size lim"
      using assms(1,3) by (simp add: within_height)
    then show ?thesis by simp
  qed
  with w show ?thesis
    unfolding constructible_def by blast
qed

lemma grid_inv_column:
  "grid_inv g \<Longrightarrow> x < mWidth g \<Longrightarrow> length (mCells g ! x) = mHeight g"
  by (simp add: grid_inv_def list_all_length)

lemma element_inv:
  "grid_inv g \<Longrightarrow> x < mWidth g \<Longrightarrow> y < mHeight g \<Longrightarrow>
   element (mCells g) x y = Returns (cell g x y)"
  by (simp add: element_def subscript_def cell_def grid_inv_def list_all_length)

lemma element_not_Throws: "element cells x y \<noteq> Throws e"
  by (simp add: element_def subscript_def)

lemma at_const_Throws:
  "at_const g x y = Throws e \<longleftrightarrow> e = out_of_range \<and> (x \<ge> mWidth g \<or> y \<ge> mHeight g)"
  by (auto simp add: at_const_def verifyCoordinate_def cell_ref_of_def element_def subscript_def)

lemma at_const_inv:
  "grid_inv g \<Longrightarrow> x < mWidth g \<Longrightarrow> y < mHeight g \<Longrightarrow> at_const g x y = Returns (CellRef x y)"
  by (simp add: at_const_def verifyCoordinate_def cell_ref_of_def element_inv)

lemma at_const_Returns:
  "at_const g x y = Returns r \<Longrightarrow> r = CellRef x y \<and> x < mWidth g \<and> y < mHeight g"
  by (auto simp add: at_const_def verifyCoordinate_def cell_ref_of_def element_def subscript_def
      split: if_splits)

lemma at_assign_inv:
  "grid_inv g \<Longrightarrow> x < mWidth g \<Longrightarrow> y < mHeight g \<Longrightarrow>
   at_assign g x y v = (Returns (), assign_ref g (CellRef x y) v)"
  by (simp add: at_assign_def at_def at_const_inv)

lemma grid_inv_assign_ref:
  assumes "grid_inv g"
  shows "grid_inv (assign_ref g (CellRef x y) v)"
proof (cases "x < length (mCells g)")
  case True
  with assms show ?thesis
    by (auto simp add: grid_inv_def list_all_length nth_list_update)
next
  case False
  with assms show ?thesis
    by (simp add: grid_inv_def list_update_beyond)
qed

lemma dims_assign_ref:
  "mWidth (assign_ref g r v) = mWidth g" "mHeight (assign_ref g r v) = mHeight g"
  by (cases r, simp)+

lemma cell_assign_ref:
  "grid_inv g \<Longrightarrow> x < mWidth g \<Longrightarrow> y < mHeight g \<Longrightarrow>
   cell (assign_ref g (CellRef x y) v) i j = (if i = x \<and> j = y then v else cell g i j)"
  by (auto simp add: cell_def grid_inv_def list_all_length nth_list_update)

lemma grid_ext:
  assumes "grid_inv g" "grid_inv g'" "mWidth g = mWidth g'" "mHeight g = mHeight g'"
    and "\<And>i j. i < mWidth g \<Longrightarrow> j < mHeight g \<Longrightarrow> cell g i j = cell g' i j"
  shows "g = g'"
proof -
  have "mCells g = mCells g'"
  proof (rule nth_equalityI)
    show "length (mCells g) = length (mCells g')"
      using assms by (simp add: grid_inv_def)
  next
    fix i assume i: "i < length (mCells g)"
    then have iw: "i < mWidth g" "i < mWidth g'" using assms by (simp_all add: grid_inv_def)
    show "mCells g ! i = mCells g' ! i"
    proof (rule nth_equalityI)
      show "length (mCells g ! i) = length (mCells g' ! i)"
        using assms iw by (simp add: grid_inv_column)
    next
      fix j assume "j < length (mCells g ! i)"
      then have "j < mHeight g" using assms iw by (simp add: grid_inv_column)
      with assms(5) iw show "mCells g ! i ! j = mCells g' ! i ! j"
        by (simp add: cell_def)
    qed
  qed
  with assms show ?thesis by simp
qed

lemma plus_cell_comm:
  fixes lhs rhs :: "'a::plus Grid"
  assumes "\<And>a b :: 'a. a + b = b + a"
  shows "plus_cell lhs rhs x y result = plus_cell rhs lhs x y result"
proof (cases "element (mCells lhs) x y")
  case (Returns l)
  then show ?thesis
    by (cases "element (mCells rhs) x y")
      (auto simp add: plus_cell_def has_value_def optional_value_def assms)
next
  case (Throws e)
  then show ?thesis by (simp add: element_not_Throws)
next
  case Undefined
  then show ?thesis
    by (cases "element (mCells rhs) x y") (simp_all add: plus_cell_def element_not_Throws)
qed

lemma plus_inner_comm:
  fixes lhs rhs :: "'a::plus Grid"
  shows "(\<And>a b :: 'a. a + b = b + a) \<Longrightarrow>
         plus_inner lhs rhs minWidth y x result = plus_inner rhs lhs minWidth y x result"
proof (induction lhs rhs minWidth y x result rule: plus_inner.induct)
  case (1 lhs rhs minWidth y x result)
  show ?case
  proof (cases "x < minWidth")
    case False
    then show ?thesis by (simp add: plus_inner.simps)
  next
    case True
    have "plus_inner lhs rhs minWidth y x result =
      result_bind (plus_cell lhs rhs x y result) (\<lambda>result'.
          plus_inner lhs rhs minWidth y (Suc x) result')"
      using True by (simp add: plus_inner.simps [of lhs rhs minWidth y x])
    also have "\<dots> = result_bind (plus_cell lhs rhs x y result) (\<lambda>result'.
          plus_inner rhs lhs minWidth y (Suc x) result')"
      using "1.IH" [OF True "1.prems"] by simp
    also have "\<dots> = plus_inner rhs lhs minWidth y x result"
      using True
      by (simp add: plus_inner.simps [of rhs lhs minWidth y x] plus_cell_comm [OF "1.prems"])
    finally show ?thesis .
  qed
qed

lemma plus_outer_comm:
  fixes lhs rhs :: "'a::plus Grid"
  shows "(\<And>a b :: 'a. a + b = b + a) \<Longrightarrow>
         plus_outer lhs rhs minWidth minHeight y result =
         plus_outer rhs lhs minWidth minHeight y result"
proof (induction lhs rhs minWidth minHeight y result rule: plus_outer.induct)
  case (1 lhs rhs minWidth minHeight y result)
  show ?case
  proof (cases "y < minHeight")
    case False
    then show ?thesis by (simp add: plus_outer.simps)
  next
    case True
    have "plus_outer lhs rhs minWidth minHeight y result =
      result_bind (plus_inner lhs rhs minWidth y 0 result) (\<lambda>result'.
          plus_outer lhs rhs minWidth minHeight (Suc y) result')"
      using True by (simp add: plus_outer.simps [of lhs rhs minWidth minHeight y])
    also have "\<dots> = result_bind (plus_inner lhs rhs minWidth y 0 result) (\<lambda>result'.
          plus_outer rhs lhs minWidth minHeight (Suc y) result')"
      using "1.IH" [OF True "1.prems"] by simp
    also have "\<dots> = plus_outer rhs lhs minWidth minHeight y result"
      using True
      by (simp add: plus_outer.simps [of rhs lhs minWidth minHeight y]
          plus_inner_comm [OF "1.prems"])
    finally show ?thesis .
  qed
qed

lemma operator_plus_comm:
  fixes A B :: "'a::plus Grid"
  assumes "\<And>a b :: 'a. a + b = b + a"
  shows "operator_plus lim A B = operator_plus lim B A"
  by (simp add: operator_plus_def Let_def min.commute plus_outer_comm [OF assms])

lemma grid_inv_filled: "grid_inv (filled w h v)"
  by (simp add: grid_inv_def filled_def list_all_iff)

lemma dims_filled: "mWidth (filled w h v) = w" "mHeight (filled w h v) = h"
  by (simp_all add: filled_def)

lemma cell_filled: "x < w \<Longrightarrow> y < h \<Longrightarrow> cell (filled w h v) x y = Some v"
  by (simp add: cell_def filled_def)

lemma deref_cell: "deref g (CellRef x y) = cell g x y"
  by (simp add: cell_def)

lemma at_assign_Throws: "at_const g x y = Throws e \<Longrightarrow> at_assign g x y v = (Throws e, g)"
  by (simp add: at_assign_def at_def)

lemma copy_ctor_id: "copy_ctor g = g"
  by (simp add: copy_ctor_def)

lemma copy_assign_rhs: "copy_assign lhs rhs = rhs"
  by (simp add: copy_assign_def)

lemma move_ctor_fst: "fst (move_ctor src) = src"
  by (simp add: move_ctor_def)

lemma move_assign_fst: "fst (move_assign leftover lhs rhs) = rhs"
  by (simp add: move_assign_def)

lemma at_assign_cases:
  "at_assign g x y v = (Returns (), assign_ref g (CellRef x y) v) \<or>
   (\<exists>out. at_assign g x y v = (out, g))"
proof (cases "at_const g x y")
  case (Returns r)
  then show ?thesis
    using at_const_Returns [of g x y r] by (simp add: at_assign_def at_def del: assign_ref.simps)
qed (simp_all add: at_assign_def at_def)

lemma at_assign_dims:
  "mWidth (snd (at_assign g x y v)) = mWidth g" "mHeight (snd (at_assign g x y v)) = mHeight g"
  using at_assign_cases [of g x y v] by (auto simp add: dims_assign_ref simp del: assign_ref.simps)

lemma at_assign_grid_inv: "grid_inv g \<Longrightarrow> grid_inv (snd (at_assign g x y v))"
  using at_assign_cases [of g x y v] by (auto simp add: grid_inv_assign_ref simp del: assign_ref.simps)

subsection \<open>The loops of \<^verbatim>\<open>operator+\<close> on grids of the right shape\<close>

lemma plus_cell_inv:
  assumes "grid_inv lhs" "grid_inv rhs" "grid_inv res"
    and "x < mWidth lhs" "x < mWidth rhs" "x < mWidth res"
    and "y < mHeight lhs" "y < mHeight rhs" "y < mHeight res"
  shows "\<exists>res'. plus_cell lhs rhs x y res = Returns res' \<and> same_shape res res' \<and>
           (\<forall>i j. cell res' i j =
              (if i = x \<and> j = y then sum_cell (cell lhs x y) (cell rhs x y) (cell res x y)
               else cell res i j))"
proof (cases "cell lhs x y")
  case None
  with assms show ?thesis
    by (simp add: plus_cell_def element_inv has_value_def sum_cell_def same_shape_def)
next
  case L: (Some l)
  show ?thesis
  proof (cases "cell rhs x y")
    case None
    with assms L show ?thesis
      by (simp add: plus_cell_def element_inv has_value_def sum_cell_def same_shape_def)
  next
    case (Some r)
    with assms L show ?thesis
      by (simp add: plus_cell_def element_inv has_value_def optional_value_def sum_cell_def
          same_shape_def at_assign_inv grid_inv_assign_ref cell_assign_ref dims_assign_ref
          del: assign_ref.simps)
  qed
qed

lemma plus_inner_inv:
  shows "grid_inv lhs \<Longrightarrow> grid_inv rhs \<Longrightarrow>
         minWidth \<le> mWidth lhs \<Longrightarrow> minWidth \<le> mWidth rhs \<Longrightarrow>
         y < mHeight lhs \<Longrightarrow> y < mHeight rhs \<Longrightarrow>
         grid_inv res \<Longrightarrow> mWidth res = minWidth \<Longrightarrow> y < mHeight res \<Longrightarrow>
         \<exists>res'. plus_inner lhs rhs minWidth y x res = Returns res' \<and> same_shape res res' \<and>
           (\<forall>i j. cell res' i j =
              (if j = y \<and> x \<le> i \<and> i < minWidth
               then sum_cell (cell lhs i y) (cell rhs i y) (cell res i y)
               else cell res i j))"
proof (induction lhs rhs minWidth y x res rule: plus_inner.induct)
  case (1 lhs rhs minWidth y x result)
  show ?case
  proof (cases "x < minWidth")
    case False
    with "1.prems" show ?thesis
      by (auto simp add: plus_inner.simps [of lhs rhs minWidth y x] same_shape_def)
  next
    case True
    from True "1.prems" obtain r1 where
      r1: "plus_cell lhs rhs x y result = Returns r1" "same_shape result r1"
      and c1: "\<And>i j. cell r1 i j =
              (if i = x \<and> j = y then sum_cell (cell lhs x y) (cell rhs x y) (cell result x y)
               else cell result i j)"
      using plus_cell_inv [of lhs rhs result x y] by auto
    from r1(2) "1.prems" have p1: "grid_inv r1" "mWidth r1 = minWidth" "y < mHeight r1"
      by (simp_all add: same_shape_def)
    have "\<exists>res'. plus_inner lhs rhs minWidth y (Suc x) r1 = Returns res' \<and> same_shape r1 res' \<and>
           (\<forall>i j. cell res' i j =
              (if j = y \<and> Suc x \<le> i \<and> i < minWidth
               then sum_cell (cell lhs i y) (cell rhs i y) (cell r1 i y)
               else cell r1 i j))"
      by (rule "1.IH" [OF True]) (use "1.prems" p1 in simp_all)
    then obtain r2 where
      r2: "plus_inner lhs rhs minWidth y (Suc x) r1 = Returns r2" "same_shape r1 r2"
      and c2: "\<And>i j. cell r2 i j =
              (if j = y \<and> Suc x \<le> i \<and> i < minWidth
               then sum_cell (cell lhs i y) (cell rhs i y) (cell r1 i y)
               else cell r1 i j)"
      by auto
    have "plus_inner lhs rhs minWidth y x result = Returns r2"
      using True r1(1) r2(1) by (simp add: plus_inner.simps [of lhs rhs minWidth y x])
    moreover have "same_shape result r2"
      using r1(2) r2(2) by (simp add: same_shape_def)
    moreover have "cell r2 i j =
              (if j = y \<and> x \<le> i \<and> i < minWidth
               then sum_cell (cell lhs i y) (cell rhs i y) (cell result i y)
               else cell result i j)" for i j
      using True by (auto simp add: c1 c2)
    ultimately show ?thesis by blast
  qed
qed


lemma plus_outer_inv:
  shows "grid_inv lhs \<Longrightarrow> grid_inv rhs \<Longrightarrow>
         minWidth \<le> mWidth lhs \<Longrightarrow> minWidth \<le> mWidth rhs \<Longrightarrow>
         minHeight \<le> mHeight lhs \<Longrightarrow> minHeight \<le> mHeight rhs \<Longrightarrow>
         grid_inv res \<Longrightarrow> mWidth res = minWidth \<Longrightarrow> mHeight res = minHeight \<Longrightarrow>
         \<exists>res'. plus_outer lhs rhs minWidth minHeight y res = Returns res' \<and> same_shape res res' \<and>
           (\<forall>i j. cell res' i j =
              (if y \<le> j \<and> j < minHeight \<and> i < minWidth
               then sum_cell (cell lhs i j) (cell rhs i j) (cell res i j)
               else cell res i j))"
proof (induction lhs rhs minWidth minHeight y res rule: plus_outer.induct)
  case (1 lhs rhs minWidth minHeight y result)
  show ?case
  proof (cases "y < minHeight")
    case False
    with "1.prems" show ?thesis
      by (auto simp add: plus_outer.simps [of lhs rhs minWidth minHeight y] same_shape_def)
  next
    case True
    from True "1.prems" obtain r1 where
      r1: "plus_inner lhs rhs minWidth y 0 result = Returns r1" "same_shape result r1"
      and c1: "\<And>i j. cell r1 i j =
              (if j = y \<and> 0 \<le> i \<and> i < minWidth
               then sum_cell (cell lhs i y) (cell rhs i y) (cell result i y)
               else cell result i j)"
      using plus_inner_inv [of lhs rhs minWidth y result 0] by auto
    from r1(2) "1.prems" have p1: "grid_inv r1" "mWidth r1 = minWidth" "mHeight r1 = minHeight"
      by (simp_all add: same_shape_def)
    have "\<exists>res'. plus_outer lhs rhs minWidth minHeight (Suc y) r1 = Returns res' \<and>
           same_shape r1 res' \<and>
           (\<forall>i j. cell res' i j =
              (if Suc y \<le> j \<and> j < minHeight \<and> i < minWidth
               then sum_cell (cell lhs i j) (cell rhs i j) (cell r1 i j)
               else cell r1 i j))"
      by (rule "1.IH" [OF True]) (use "1.prems" p1 in simp_all)
    then obtain r2 where
      r2: "plus_outer lhs rhs minWidth minHeight (Suc y) r1 = Returns r2" "same_shape r1 r2"
      and c2: "\<And>i j. cell r2 i j =
              (if Suc y \<le> j \<and> j < minHeight \<and> i < minWidth
               then sum_cell (cell lhs i j) (cell rhs i j) (cell r1 i j)
               else cell r1 i j)"
      by auto
    have "plus_outer lhs rhs minWidth minHeight y result = Returns r2"
      using True r1(1) r2(1) by (simp add: plus_outer.simps [of lhs rhs minWidth minHeight y])
    moreover have "same_shape result r2"
      using r1(2) r2(2) by (simp add: same_shape_def)
    moreover have "cell r2 i j =
              (if y \<le> j \<and> j < minHeight \<and> i < minWidth
               then sum_cell (cell lhs i j) (cell rhs i j) (cell result i j)
               else cell result i j)" for i j
      using True by (auto simp add: c1 c2)
    ultimately show ?thesis by blast
  qed
qed

lemma operator_plus_throws:
  assumes "\<not> constructible lim (min (mWidth lhs) (mWidth rhs)) (min (mHeight lhs) (mHeight rhs))"
  shows "operator_plus lim lhs rhs = Throws length_error"
  using assms by (simp add: operator_plus_def Let_def getWidth_def getHeight_def Grid_eq)

lemma operator_plus_returns:
  assumes "constructible lim (min (mWidth lhs) (mWidth rhs)) (min (mHeight lhs) (mHeight rhs))"
  shows "operator_plus lim lhs rhs =
         plus_outer lhs rhs (min (mWidth lhs) (mWidth rhs)) (min (mHeight lhs) (mHeight rhs)) 0
           (blank (min (mWidth lhs) (mWidth rhs)) (min (mHeight lhs) (mHeight rhs)))"
  using assms by (simp add: operator_plus_def Let_def getWidth_def getHeight_def Grid_eq)

lemma operator_plus_inv:
  assumes "grid_inv lhs" "grid_inv rhs"
    and "constructible lim (min (mWidth lhs) (mWidth rhs)) (min (mHeight lhs) (mHeight rhs))"
  shows "\<exists>res. operator_plus lim lhs rhs = Returns res \<and> grid_inv res \<and>
           mWidth res = min (mWidth lhs) (mWidth rhs) \<and>
           mHeight res = min (mHeight lhs) (mHeight rhs) \<and>
           (\<forall>i j. i < mWidth res \<longrightarrow> j < mHeight res \<longrightarrow>
              cell res i j = sum_cell (cell lhs i j) (cell rhs i j) None)"
proof -
  let ?w = "min (mWidth lhs) (mWidth rhs)" and ?h = "min (mHeight lhs) (mHeight rhs)"
  from assms(1,2) obtain res where
    r: "plus_outer lhs rhs ?w ?h 0 (blank ?w ?h) = Returns res" "same_shape (blank ?w ?h) res"
    and c: "\<And>i j. cell res i j =
              (if 0 \<le> j \<and> j < ?h \<and> i < ?w
               then sum_cell (cell lhs i j) (cell rhs i j) (cell (blank ?w ?h) i j)
               else cell (blank ?w ?h) i j)"
    using plus_outer_inv [of lhs rhs ?w ?h "blank ?w ?h" 0]
    by (auto simp add: grid_inv_blank mWidth_blank mHeight_blank)
  have "operator_plus lim lhs rhs = Returns res"
    using r(1) assms(3)
    by (simp add: operator_plus_def Let_def getWidth_def getHeight_def Grid_eq)
  moreover from r(2) have "grid_inv res" "mWidth res = ?w" "mHeight res = ?h"
    by (simp_all add: same_shape_def mWidth_blank mHeight_blank)
  moreover have "cell res i j = sum_cell (cell lhs i j) (cell rhs i j) None"
    if "i < ?w" "j < ?h" for i j
    using that by (simp add: c cell_blank)
  ultimately show ?thesis by simp
qed

lemma within_same_shape:
  assumes "same_shape g g'" and "grid_inv g" and "within lim g"
  shows "within lim g'"
proof -
  from assms(1,2) have l: "length (mCells g') = length (mCells g)" "mWidth g' = mWidth g"
    by (simp_all add: same_shape_def grid_inv_def)
  have "length column \<le> column_max_size lim" if "column \<in> set (mCells g')" for column
  proof -
    from that have "0 < length (mCells g')" by (cases "mCells g'") auto
    with l assms(2) have "0 < mWidth g" by (simp only: grid_inv_def)
    with assms(2,3) have "mHeight g \<le> column_max_size lim"
      by (simp add: within_height)
    moreover from that assms(1) have "length column = mHeight g"
      by (auto simp add: same_shape_def grid_inv_def list_all_iff)
    ultimately show ?thesis by simp
  qed
  with l(1) assms(3) show ?thesis
    by (simp add: within_def list_all_iff)
qed

section \<open>Construction and cell access\<close>

text \<open>
  C3, as the code has it. When the width \<open>w\<close> is at most the \<^verbatim>\<open>max_size()\<close> of the table
  and the height \<open>h\<close> is at most the \<^verbatim>\<open>max_size()\<close> of a column, or \<open>w\<close> is 0, the
  constructor returns a grid whose width is \<open>w\<close> and whose height is \<open>h\<close>, with a table of
  that shape; every coordinate \<open>(x, y)\<close> with \<open>x < w\<close> and \<open>y < h\<close> addresses a cell, and
  the cell is absent; when \<open>w\<close> or \<open>h\<close> is 0, \<^verbatim>\<open>at\<close> throws the out-of-range error at
  every coordinate. For every other \<open>w\<close> and \<open>h\<close> the constructor throws
  \<^verbatim>\<open>std::length_error\<close>. The constructor without arguments is the constructor at width
  10 and height 10.
\<close>

theorem Grid_construction:
  "(w \<le> table_max_size lim \<and> (w = 0 \<or> h \<le> column_max_size lim) \<longrightarrow>
      (\<exists>g. Grid lim w h = Returns g \<and>
         getWidth g = w \<and> getHeight g = h \<and> grid_inv g \<and>
         (\<forall>x y. x < w \<longrightarrow> y < h \<longrightarrow>
            fst (at g x y) = Returns (CellRef x y) \<and> deref g (CellRef x y) = None) \<and>
         (w = 0 \<or> h = 0 \<longrightarrow> (\<forall>x y. fst (at g x y) = Throws out_of_range)))) \<and>
   (\<not> (w \<le> table_max_size lim \<and> (w = 0 \<or> h \<le> column_max_size lim)) \<longrightarrow>
      Grid lim w h = Throws length_error) \<and>
   Grid_default lim = Grid lim 10 10"
proof (intro conjI impI)
  assume c: "w \<le> table_max_size lim \<and> (w = 0 \<or> h \<le> column_max_size lim)"
  let ?g = "blank w h"
  from c have "Grid lim w h = Returns ?g"
    by (simp add: Grid_eq constructible_def)
  moreover have "getWidth ?g = w" "getHeight ?g = h"
    by (simp_all add: getWidth_def getHeight_def mWidth_blank mHeight_blank)
  moreover have "grid_inv ?g"
    by (rule grid_inv_blank)
  moreover have "fst (at ?g x y) = Returns (CellRef x y) \<and> deref ?g (CellRef x y) = None"
    if "x < w" "y < h" for x y
    using that cell_blank [OF that]
    by (simp add: at_def at_const_inv grid_inv_blank mWidth_blank mHeight_blank deref_cell
        del: deref.simps)
  moreover have "fst (at ?g x y) = Throws out_of_range" if "w = 0 \<or> h = 0" for x y
  proof -
    from that have "x \<ge> mWidth ?g \<or> y \<ge> mHeight ?g"
      by (auto simp add: mWidth_blank mHeight_blank)
    then show ?thesis
      by (simp add: at_def at_const_Throws)
  qed
  ultimately show "\<exists>g. Grid lim w h = Returns g \<and>
         getWidth g = w \<and> getHeight g = h \<and> grid_inv g \<and>
         (\<forall>x y. x < w \<longrightarrow> y < h \<longrightarrow>
            fst (at g x y) = Returns (CellRef x y) \<and> deref g (CellRef x y) = None) \<and>
         (w = 0 \<or> h = 0 \<longrightarrow> (\<forall>x y. fst (at g x y) = Throws out_of_range))"
    by blast
next
  assume "\<not> (w \<le> table_max_size lim \<and> (w = 0 \<or> h \<le> column_max_size lim))"
  then show "Grid lim w h = Throws length_error"
    by (simp add: Grid_eq constructible_def)
next
  show "Grid_default lim = Grid lim 10 10"
    by (simp add: Grid_default_def kDefaultWidth_def kDefaultHeight_def)
qed

theorem Grid_construction_witness:
  "(\<exists>g :: int Grid. Grid example_limits 2 3 = Returns g \<and> getWidth g = 2 \<and> getHeight g = 3 \<and>
      fst (at g 1 2) = Returns (CellRef 1 2) \<and> deref g (CellRef 1 2) = None) \<and>
   (\<exists>g :: int Grid. Grid example_limits 0 SIZE_MAX = Returns g \<and>
      fst (at g 0 0) = Throws out_of_range) \<and>
   (\<exists>g :: int Grid. Grid example_limits 2 0 = Returns g \<and>
      fst (at g 1 0) = Throws out_of_range) \<and>
   Grid example_limits 1 SIZE_MAX = (Throws length_error :: int Grid result)"
proof -
  have a: "(2::nat) \<le> table_max_size example_limits \<and>
           ((2::nat) = 0 \<or> (3::nat) \<le> column_max_size example_limits)"
    by (simp add: example_limits_def)
  have b: "(0::nat) \<le> table_max_size example_limits \<and>
           ((0::nat) = 0 \<or> SIZE_MAX \<le> column_max_size example_limits)"
    by (simp add: example_limits_def)
  have c: "(2::nat) \<le> table_max_size example_limits \<and>
           ((2::nat) = 0 \<or> (0::nat) \<le> column_max_size example_limits)"
    by (simp add: example_limits_def)
  have d: "\<not> ((1::nat) \<le> table_max_size example_limits \<and>
           ((1::nat) = 0 \<or> SIZE_MAX \<le> column_max_size example_limits))"
    by (simp add: example_limits_def SIZE_MAX_def)
  have n: "(1::nat) < 2" "(2::nat) < 3" "(0::nat) = 0 \<or> SIZE_MAX = 0" "(2::nat) = 0 \<or> (0::nat) = 0"
    by simp_all
  note t1 = Grid_construction [of 2 example_limits 3, where ?'a = int]
  note t2 = Grid_construction [of 0 example_limits SIZE_MAX, where ?'a = int]
  note t3 = Grid_construction [of 2 example_limits 0, where ?'a = int]
  note t4 = Grid_construction [of 1 example_limits SIZE_MAX, where ?'a = int]
  from t1 a n(1,2) have 1: "\<exists>g :: int Grid. Grid example_limits 2 3 = Returns g \<and>
      getWidth g = 2 \<and> getHeight g = 3 \<and>
      fst (at g 1 2) = Returns (CellRef 1 2) \<and> deref g (CellRef 1 2) = None"
    by blast
  from t2 b n(3) have 2: "\<exists>g :: int Grid. Grid example_limits 0 SIZE_MAX = Returns g \<and>
      fst (at g 0 0) = Throws out_of_range"
    by blast
  from t3 c n(4) have 3: "\<exists>g :: int Grid. Grid example_limits 2 0 = Returns g \<and>
      fst (at g 1 0) = Throws out_of_range"
    by blast
  from t4 d have 4: "Grid example_limits 1 SIZE_MAX = (Throws length_error :: int Grid result)"
    by blast
  from 1 2 3 4 show ?thesis
    by (simp only: simp_thms)
qed

text \<open>
  The claim as first stated has the constructor succeed for every width and height. With
  the limits of a 64-bit implementation, the largest \<^verbatim>\<open>size_t\<close> as width is refused by
  the \<^verbatim>\<open>resize\<close> of the table, with height 0 as with any other.
\<close>

theorem Grid_construction_counterexample:
  "Grid example_limits SIZE_MAX 0 = (Throws length_error :: int Grid result)"
  by (simp add: Grid_def resize_def example_limits_def SIZE_MAX_def)

text \<open>
  C2. \<^verbatim>\<open>at(x, y)\<close>, in either overload, throws the out-of-range error exactly when
  \<open>x\<close> is at least the width or \<open>y\<close> at least the height. On a grid whose table has the
  shape its dimensions say, every other coordinate is answered with the reference to the
  cell at column \<open>x\<close>, position \<open>y\<close>, and a returned reference is never to another place.
  The call leaves the grid as it was; when it throws, a statement \<^verbatim>\<open>g.at(x, y) = v\<close>
  leaves the grid as it was too.
\<close>

theorem at_out_of_range_iff:
  "(at_const g x y = Throws out_of_range \<longleftrightarrow> x \<ge> getWidth g \<or> y \<ge> getHeight g) \<and>
   (fst (at g x y) = Throws out_of_range \<longleftrightarrow> x \<ge> getWidth g \<or> y \<ge> getHeight g) \<and>
   (grid_inv g \<longrightarrow> x < getWidth g \<longrightarrow> y < getHeight g \<longrightarrow>
      at_const g x y = Returns (CellRef x y) \<and> fst (at g x y) = Returns (CellRef x y) \<and>
      deref g (CellRef x y) = cell g x y) \<and>
   (\<forall>r. fst (at g x y) = Returns r \<longrightarrow> r = CellRef x y) \<and>
   snd (at g x y) = g \<and>
   (\<forall>e v. fst (at g x y) = Throws e \<longrightarrow> at_assign g x y v = (Throws e, g))"
proof (intro conjI allI impI)
  show "at_const g x y = Throws out_of_range \<longleftrightarrow> x \<ge> getWidth g \<or> y \<ge> getHeight g"
    by (simp add: at_const_Throws getWidth_def getHeight_def)
  then show "fst (at g x y) = Throws out_of_range \<longleftrightarrow> x \<ge> getWidth g \<or> y \<ge> getHeight g"
    by (simp add: at_def)
  show "snd (at g x y) = g"
    by (simp add: at_def)
  show "deref g (CellRef x y) = cell g x y"
    by (simp add: cell_def)
next
  assume "grid_inv g" "x < getWidth g" "y < getHeight g"
  then show "at_const g x y = Returns (CellRef x y)"
    by (simp add: at_const_inv getWidth_def getHeight_def)
  then show "fst (at g x y) = Returns (CellRef x y)"
    by (simp add: at_def)
next
  fix r assume "fst (at g x y) = Returns r"
  then show "r = CellRef x y"
    by (simp add: at_def at_const_Returns)
next
  fix e v assume "fst (at g x y) = Throws e"
  then show "at_assign g x y v = (Throws e, g)"
    by (simp add: at_def at_assign_Throws)
qed

theorem at_out_of_range_iff_witness:
  "grid_inv (blank 2 3 :: int Grid) \<and> 1 < getWidth (blank 2 3 :: int Grid) \<and>
   2 < getHeight (blank 2 3 :: int Grid) \<and>
   fst (at (blank 2 3 :: int Grid) 1 2) = Returns (CellRef 1 2) \<and>
   2 \<ge> getWidth (blank 2 3 :: int Grid) \<and>
   fst (at (blank 2 3 :: int Grid) 2 0) = Throws out_of_range \<and>
   at_assign (blank 2 3 :: int Grid) 2 0 (Some 7) = (Throws out_of_range, blank 2 3) \<and>
   3 \<ge> getHeight (blank 2 3 :: int Grid) \<and>
   fst (at (blank 2 3 :: int Grid) 1 3) = Throws out_of_range"
proof -
  let ?g = "blank 2 3 :: int Grid"
  have g: "grid_inv ?g" by code_simp
  have w: "1 < getWidth ?g" by code_simp
  have h: "2 < getHeight ?g" by code_simp
  have w': "2 \<ge> getWidth ?g" by code_simp
  have h': "3 \<ge> getHeight ?g" by code_simp
  have 1: "fst (at ?g 1 2) = Returns (CellRef 1 2)"
    using at_out_of_range_iff [of ?g 1 2] g w h by blast
  have 2: "fst (at ?g 2 0) = Throws out_of_range"
    using at_out_of_range_iff [of ?g 2 0] w' by blast
  have 3: "at_assign ?g 2 0 (Some 7) = (Throws out_of_range, ?g)"
    using at_out_of_range_iff [of ?g 2 0] 2 by blast
  have 4: "fst (at ?g 1 3) = Throws out_of_range"
    using at_out_of_range_iff [of ?g 1 3] h' by blast
  from g w h w' h' 1 2 3 4 show ?thesis
    by (simp only: simp_thms)
qed

text \<open>
  C4. After \<^verbatim>\<open>g.at(x, y) = v\<close> at a coordinate within the bounds of \<open>g\<close>, \<^verbatim>\<open>at(x, y)\<close>
  on that grid, in either overload, returns a reference to a present cell whose value is
  \<open>v\<close>.
\<close>

theorem at_write_then_read:
  assumes "grid_inv g" and "x < getWidth g" and "y < getHeight g"
  shows "\<exists>g'. at_assign g x y (Some v) = (Returns (), g') \<and>
           (\<exists>r. fst (at g' x y) = Returns r \<and> deref g' r = Some v) \<and>
           (\<exists>r. at_const g' x y = Returns r \<and> deref g' r = Some v)"
proof -
  let ?g' = "assign_ref g (CellRef x y) (Some v)"
  from assms have b: "x < mWidth g" "y < mHeight g"
    by (simp_all add: getWidth_def getHeight_def)
  with assms(1) have "at_assign g x y (Some v) = (Returns (), ?g')"
    by (rule at_assign_inv)
  moreover have "at_const ?g' x y = Returns (CellRef x y)"
    using assms(1) b by (simp add: at_const_inv grid_inv_assign_ref dims_assign_ref del: assign_ref.simps)
  moreover have "deref ?g' (CellRef x y) = Some v"
    using cell_assign_ref [OF assms(1) b, of "Some v" x y] by (simp add: cell_def)
  ultimately show ?thesis
    by (simp add: at_def del: assign_ref.simps deref.simps)
qed

theorem at_write_then_read_witness:
  "grid_inv (blank 2 3 :: int Grid) \<and> 1 < getWidth (blank 2 3 :: int Grid) \<and>
   2 < getHeight (blank 2 3 :: int Grid) \<and>
   (\<exists>g'. at_assign (blank 2 3 :: int Grid) 1 2 (Some 7) = (Returns (), g') \<and>
      (\<exists>r. fst (at g' 1 2) = Returns r \<and> deref g' r = Some 7) \<and>
      (\<exists>r. at_const g' 1 2 = Returns r \<and> deref g' r = Some 7))"
proof -
  let ?g = "blank 2 3 :: int Grid"
  have g: "grid_inv ?g" by code_simp
  have w: "1 < getWidth ?g" by code_simp
  have h: "2 < getHeight ?g" by code_simp
  from at_write_then_read [OF g w h, of 7] g w h show ?thesis
    by (simp only: simp_thms)
qed

text \<open>
  C8. The mutable overload of \<^verbatim>\<open>at\<close> has the outcome of the read-only overload at
  every grid and coordinate, and does not change the grid: the two throw at the same
  coordinates, and where they return, they return the same reference, which reads the same
  cell of the same table.
\<close>

theorem at_overloads_agree:
  "fst (at g x y) = at_const g x y \<and> snd (at g x y) = g \<and>
   ((\<exists>e. fst (at g x y) = Throws e) \<longleftrightarrow> (\<exists>e. at_const g x y = Throws e)) \<and>
   (\<forall>r r'. fst (at g x y) = Returns r \<and> at_const g x y = Returns r' \<longrightarrow>
      r = r' \<and> deref (snd (at g x y)) r = deref g r')"
  by (auto simp add: at_def)

theorem at_overloads_agree_witness:
  "fst (at (blank 2 3 :: int Grid) 1 2) = Returns (CellRef 1 2) \<and>
   at_const (blank 2 3 :: int Grid) 1 2 = Returns (CellRef 1 2) \<and>
   fst (at (blank 2 3 :: int Grid) 2 2) = Throws out_of_range \<and>
   at_const (blank 2 3 :: int Grid) 2 2 = Throws out_of_range"
proof -
  let ?g = "blank 2 3 :: int Grid"
  have a: "at_const ?g 1 2 = Returns (CellRef 1 2)" by code_simp
  have b: "at_const ?g 2 2 = Throws out_of_range" by code_simp
  have "fst (at ?g 1 2) = at_const ?g 1 2"
    using at_overloads_agree [of ?g 1 2] by (rule conjunct1)
  from this a have a': "fst (at ?g 1 2) = Returns (CellRef 1 2)"
    by (rule trans)
  have "fst (at ?g 2 2) = at_const ?g 2 2"
    using at_overloads_agree [of ?g 2 2] by (rule conjunct1)
  from this b have b': "fst (at ?g 2 2) = Throws out_of_range"
    by (rule trans)
  from a a' b b' show ?thesis
    by (simp only: simp_thms)
qed

section \<open>Copies\<close>

text \<open>
  C7. Let \<open>b\<close> be constructed as a copy of the grid \<open>a\<close>, two distinct objects. The copy is
  equal to \<open>a\<close>. Whatever is then assigned to a cell of \<open>b\<close> through \<^verbatim>\<open>at\<close>, \<open>a\<close> and every
  one of its cells are as before; whatever is assigned to a cell of \<open>a\<close>, \<open>b\<close> and every
  one of its cells are as they were copied.
\<close>

theorem copy_independent:
  assumes "a \<noteq> b"
  shows "store_copy_ctor b a s b = s a \<and> store_copy_ctor b a s a = s a \<and>
         (\<forall>x y v. snd (store_at_assign b x y v (store_copy_ctor b a s)) a = s a) \<and>
         (\<forall>x y v. snd (store_at_assign a x y v (store_copy_ctor b a s)) b = s a) \<and>
         (\<forall>x y v i j. cell (snd (store_at_assign b x y v (store_copy_ctor b a s)) a) i j =
            cell (s a) i j) \<and>
         (\<forall>x y v i j. cell (snd (store_at_assign a x y v (store_copy_ctor b a s)) b) i j =
            cell (s a) i j)"
  using assms
  by (simp add: store_copy_ctor_def store_at_assign_def copy_ctor_id split: prod.splits)

theorem copy_independent_witness:
  "(0::nat) \<noteq> 1 \<and>
   store_copy_ctor 1 0 (\<lambda>_. filled 2 2 (5::int)) 1 = filled 2 2 5 \<and>
   snd (store_at_assign 1 0 0 (Some 7) (store_copy_ctor 1 0 (\<lambda>_. filled 2 2 (5::int)))) 0 =
     filled 2 2 5 \<and>
   cell (snd (store_at_assign 1 0 0 (Some 7) (store_copy_ctor 1 0 (\<lambda>_. filled 2 2 (5::int)))) 1) 0 0 =
     Some 7 \<and>
   snd (store_at_assign 0 0 0 (Some 7) (store_copy_ctor 1 0 (\<lambda>_. filled 2 2 (5::int)))) 1 =
     filled 2 2 5 \<and>
   cell (snd (store_at_assign 0 0 0 (Some 7) (store_copy_ctor 1 0 (\<lambda>_. filled 2 2 (5::int)))) 0) 0 0 =
     Some 7"
proof -
  let ?s = "\<lambda>_::nat. filled 2 2 (5::int)"
  have d: "(0::nat) \<noteq> 1" by simp
  note t = copy_independent [OF d, of ?s]
  have 1: "store_copy_ctor 1 0 ?s 1 = filled 2 2 5"
    using t by (simp only: simp_thms)
  have 2: "snd (store_at_assign 1 0 0 (Some 7) (store_copy_ctor 1 0 ?s)) 0 = filled 2 2 5"
    using t by blast
  have 3: "snd (store_at_assign 0 0 0 (Some 7) (store_copy_ctor 1 0 ?s)) 1 = filled 2 2 5"
    using t by blast
  have 4: "cell (snd (store_at_assign 1 0 0 (Some 7) (store_copy_ctor 1 0 ?s)) 1) 0 0 = Some 7"
    by (simp add: store_at_assign_def store_copy_ctor_def copy_ctor_def at_assign_def at_def
        at_const_def verifyCoordinate_def cell_ref_of_def element_def subscript_def filled_def
        cell_def)
  have 5: "cell (snd (store_at_assign 0 0 0 (Some 7) (store_copy_ctor 1 0 ?s)) 0) 0 0 = Some 7"
    by (simp add: store_at_assign_def store_copy_ctor_def copy_ctor_def at_assign_def at_def
        at_const_def verifyCoordinate_def cell_ref_of_def element_def subscript_def filled_def
        cell_def)
  from d 1 2 3 4 5 show ?thesis by (simp only: simp_thms)
qed

section \<open>The sum of two grids\<close>

text \<open>
  C1. For two grids \<open>A\<close> and \<open>B\<close> whose tables have the shape their dimensions say (and
  whose vectors, as all vectors, are within \<^verbatim>\<open>max_size()\<close>), \<open>A + B\<close> returns a new grid
  \<open>R\<close>, whatever the dimensions of the operands. Its width is the smaller of the two widths
  and its height the smaller of the two heights. Every coordinate \<open>(x, y)\<close> below these
  bounds addresses a cell of \<open>R\<close>: the cell holds the sum \<open>a + b\<close> when the cells of \<open>A\<close>
  and \<open>B\<close> at \<open>(x, y)\<close> hold \<open>a\<close> and \<open>b\<close>, and it is absent when either of them is absent.
\<close>

theorem operator_plus_cells:
  fixes A B :: "'a::plus Grid"
  assumes "grid_inv A" and "grid_inv B" and "within lim A" and "within lim B"
  shows "\<exists>R. operator_plus lim A B = Returns R \<and> grid_inv R \<and>
           getWidth R = min (getWidth A) (getWidth B) \<and>
           getHeight R = min (getHeight B) (getHeight A) \<and>
           (\<forall>x y. x < getWidth R \<longrightarrow> y < getHeight R \<longrightarrow>
              at_const R x y = Returns (CellRef x y) \<and>
              (\<forall>a b. cell A x y = Some a \<and> cell B x y = Some b \<longrightarrow>
                 deref R (CellRef x y) = Some (a + b)) \<and>
              (cell A x y = None \<or> cell B x y = None \<longrightarrow> deref R (CellRef x y) = None))"
proof -
  from operator_plus_inv [OF assms(1,2) within_constructible [OF assms]] obtain R where
    R: "operator_plus lim A B = Returns R" "grid_inv R"
       "mWidth R = min (mWidth A) (mWidth B)" "mHeight R = min (mHeight A) (mHeight B)"
    and c: "\<And>i j. i < mWidth R \<Longrightarrow> j < mHeight R \<Longrightarrow>
              cell R i j = sum_cell (cell A i j) (cell B i j) None"
    by blast
  have "at_const R x y = Returns (CellRef x y) \<and>
        (\<forall>a b. cell A x y = Some a \<and> cell B x y = Some b \<longrightarrow>
           deref R (CellRef x y) = Some (a + b)) \<and>
        (cell A x y = None \<or> cell B x y = None \<longrightarrow> deref R (CellRef x y) = None)"
    if "x < mWidth R" "y < mHeight R" for x y
    using that R(2) c [OF that]
    by (auto simp add: at_const_inv deref_cell sum_cell_def split: option.splits
        simp del: deref.simps)
  with R show ?thesis
    by (simp add: getWidth_def getHeight_def min.commute)
qed

theorem operator_plus_cells_witness:
  "grid_inv (filled 3 3 (1::int)) \<and> grid_inv (filled 2 4 (2::int)) \<and>
   within example_limits (filled 3 3 (1::int)) \<and> within example_limits (filled 2 4 (2::int)) \<and>
   (\<exists>R. operator_plus example_limits (filled 3 3 (1::int)) (filled 2 4 2) = Returns R \<and>
      grid_inv R \<and> getWidth R = 2 \<and> getHeight R = 3 \<and>
      (\<forall>x y. x < 2 \<longrightarrow> y < 3 \<longrightarrow>
         at_const R x y = Returns (CellRef x y) \<and> deref R (CellRef x y) = Some 3))"
proof -
  have a: "grid_inv (filled 3 3 (1::int))"
    by code_simp
  have b: "grid_inv (filled 2 4 (2::int))"
    by code_simp
  have a': "within example_limits (filled 3 3 (1::int))"
    by (simp add: within_filled constructible_def example_limits_def)
  have b': "within example_limits (filled 2 4 (2::int))"
    by (simp add: within_filled constructible_def example_limits_def)
  from operator_plus_cells [OF a b a' b'] obtain R where
    R: "operator_plus example_limits (filled 3 3 (1::int)) (filled 2 4 2) = Returns R" "grid_inv R"
       "getWidth R = 2" "getHeight R = 3"
    and c: "\<And>x y. x < 2 \<Longrightarrow> y < 3 \<Longrightarrow>
      at_const R x y = Returns (CellRef x y) \<and>
      (\<forall>a b. cell (filled 3 3 (1::int)) x y = Some a \<and> cell (filled 2 4 (2::int)) x y = Some b \<longrightarrow>
         deref R (CellRef x y) = Some (a + b))"
    by (auto simp add: getWidth_def getHeight_def dims_filled)
  have "at_const R x y = Returns (CellRef x y) \<and> deref R (CellRef x y) = Some 3"
    if "x < 2" "y < 3" for x y
    using c [OF that] that by (simp add: cell_filled del: deref.simps)
  with a b a' b' R show ?thesis by blast
qed

text \<open>
  C9. When the addition of the elements is commutative (nothing else is asked of it),
  \<open>A + B\<close> and \<open>B + A\<close> have the same outcome for all operands: the same grid (same
  dimensions, same cells) whenever there is one, and there is one for operands of the
  right shape.
\<close>

theorem operator_plus_commutes:
  fixes A B :: "'a::plus Grid"
  assumes "\<forall>a b :: 'a. a + b = b + a"
  shows "operator_plus lim A B = operator_plus lim B A \<and>
         (grid_inv A \<longrightarrow> grid_inv B \<longrightarrow> within lim A \<longrightarrow> within lim B \<longrightarrow>
            (\<exists>R. operator_plus lim A B = Returns R \<and> operator_plus lim B A = Returns R))"
proof (intro conjI impI)
  from assms have comm: "a + b = b + a" for a b :: 'a
    by blast
  show eq: "operator_plus lim A B = operator_plus lim B A"
    by (simp add: operator_plus_def Let_def min.commute plus_outer_comm [OF comm])
  assume "grid_inv A" and "grid_inv B" and "within lim A" and "within lim B"
  then obtain R where "operator_plus lim A B = Returns R"
    using operator_plus_inv [of A B lim] within_constructible [of A B lim] by blast
  moreover from this have "operator_plus lim B A = Returns R"
    by (simp only: eq [symmetric])
  ultimately show "\<exists>R. operator_plus lim A B = Returns R \<and> operator_plus lim B A = Returns R"
    by blast
qed

theorem operator_plus_commutes_witness:
  "(\<forall>a b :: int. a + b = b + a) \<and>
   grid_inv (filled 3 3 (1::int)) \<and> grid_inv (filled 2 4 (2::int)) \<and>
   within example_limits (filled 3 3 (1::int)) \<and> within example_limits (filled 2 4 (2::int)) \<and>
   operator_plus example_limits (filled 3 3 (1::int)) (filled 2 4 2) = Returns (filled 2 3 3) \<and>
   operator_plus example_limits (filled 2 4 2) (filled 3 3 (1::int)) = Returns (filled 2 3 3)"
proof -
  let ?A = "filled 3 3 (1::int)" and ?B = "filled 2 4 (2::int)"
  have comm: "\<forall>a b :: int. a + b = b + a"
    by simp
  have a: "grid_inv ?A"
    by code_simp
  have b: "grid_inv ?B"
    by code_simp
  have a': "within example_limits ?A"
    by (simp add: within_filled constructible_def example_limits_def)
  have b': "within example_limits ?B"
    by (simp add: within_filled constructible_def example_limits_def)
  have d: "min (mWidth ?A) (mWidth ?B) = 2" "min (mHeight ?A) (mHeight ?B) = 3"
    by code_simp+
  have "plus_outer ?A ?B 2 3 0 (blank 2 3) = Returns (filled 2 3 3)"
    by code_simp
  then have c: "operator_plus example_limits ?A ?B = Returns (filled 2 3 3)"
    using operator_plus_returns [OF within_constructible [OF a b a' b']]
    by (simp only: d)
  have "operator_plus example_limits ?B ?A = operator_plus example_limits ?A ?B"
    by (rule conjunct1 [OF operator_plus_commutes [OF comm]])
  with comm a b a' b' c show ?thesis
    by (simp only: simp_thms)
qed

text \<open>
  C10. Let \<open>A'\<close> have the dimensions of \<open>A\<close>, and \<open>B'\<close> those of \<open>B\<close>, all four with
  tables of the shape their dimensions say. If \<open>A'\<close> agrees with \<open>A\<close>, and \<open>B'\<close> with \<open>B\<close>,
  on every cell \<open>(x, y)\<close> with \<open>x\<close> below the smaller width and \<open>y\<close> below the smaller
  height of \<open>A\<close> and \<open>B\<close>, then \<open>A' + B'\<close> has the outcome of \<open>A + B\<close>, which is a grid
  (\<open>A\<close> and \<open>B\<close> being within \<^verbatim>\<open>max_size()\<close>).
\<close>

theorem operator_plus_overlap_only:
  fixes A A' B B' :: "'a::plus Grid"
  assumes "grid_inv A" and "grid_inv A'" and "grid_inv B" and "grid_inv B'"
    and "getWidth A' = getWidth A" and "getHeight A' = getHeight A"
    and "getWidth B' = getWidth B" and "getHeight B' = getHeight B"
    and "\<forall>x y. x < min (getWidth A) (getWidth B) \<longrightarrow> y < min (getHeight A) (getHeight B) \<longrightarrow>
           cell A' x y = cell A x y \<and> cell B' x y = cell B x y"
  shows "operator_plus lim A' B' = operator_plus lim A B \<and>
         (within lim A \<longrightarrow> within lim B \<longrightarrow> (\<exists>R. operator_plus lim A B = Returns R))"
proof (intro conjI impI)
  from assms(5-8) have d: "mWidth A' = mWidth A" "mHeight A' = mHeight A"
    "mWidth B' = mWidth B" "mHeight B' = mHeight B"
    by (simp_all add: getWidth_def getHeight_def)
  let ?w = "min (mWidth A) (mWidth B)" and ?h = "min (mHeight A) (mHeight B)"
  show "operator_plus lim A' B' = operator_plus lim A B"
  proof (cases "constructible lim ?w ?h")
    case False
    then have "operator_plus lim A B = Throws length_error"
      by (rule operator_plus_throws)
    moreover from False have "operator_plus lim A' B' = Throws length_error"
      by (intro operator_plus_throws) (simp add: d)
    ultimately show ?thesis by simp
  next
    case True
    from operator_plus_inv [OF assms(1,3) True] obtain R where
      R: "operator_plus lim A B = Returns R" "grid_inv R"
         "mWidth R = min (mWidth A) (mWidth B)" "mHeight R = min (mHeight A) (mHeight B)"
      and c: "\<And>i j. i < mWidth R \<Longrightarrow> j < mHeight R \<Longrightarrow>
                cell R i j = sum_cell (cell A i j) (cell B i j) None"
      by blast
    from True have "constructible lim (min (mWidth A') (mWidth B')) (min (mHeight A') (mHeight B'))"
      by (simp add: d)
    from operator_plus_inv [OF assms(2,4) this] obtain R' where
      R': "operator_plus lim A' B' = Returns R'" "grid_inv R'"
         "mWidth R' = min (mWidth A') (mWidth B')" "mHeight R' = min (mHeight A') (mHeight B')"
      and c': "\<And>i j. i < mWidth R' \<Longrightarrow> j < mHeight R' \<Longrightarrow>
                cell R' i j = sum_cell (cell A' i j) (cell B' i j) None"
      by blast
    have "R' = R"
    proof (rule grid_ext)
      show "grid_inv R'" "grid_inv R" by fact+
      show "mWidth R' = mWidth R" "mHeight R' = mHeight R"
        using R(3,4) R'(3,4) d by simp_all
    next
      fix i j assume ij: "i < mWidth R'" "j < mHeight R'"
      with R'(3,4) d have b: "i < min (getWidth A) (getWidth B)" "j < min (getHeight A) (getHeight B)"
        by (simp_all add: getWidth_def getHeight_def)
      with assms(9) have "cell A' i j = cell A i j" "cell B' i j = cell B i j"
        by blast+
      moreover from ij R(3,4) R'(3,4) d have "i < mWidth R" "j < mHeight R"
        by simp_all
      ultimately show "cell R' i j = cell R i j"
        using c [of i j] c' [OF ij] by simp
    qed
    with R(1) R'(1) show ?thesis by simp
  qed
next
  assume "within lim A" and "within lim B"
  with assms(1,3) show "\<exists>R. operator_plus lim A B = Returns R"
    using operator_plus_inv [of A B lim] within_constructible [of A B lim] by blast
qed

theorem operator_plus_overlap_only_witness:
  "grid_inv (filled 3 3 (1::int)) \<and>
   grid_inv (snd (at_assign (filled 3 3 (1::int)) 2 2 (Some 9))) \<and>
   grid_inv (filled 2 2 (2::int)) \<and>
   within example_limits (filled 3 3 (1::int)) \<and> within example_limits (filled 2 2 (2::int)) \<and>
   snd (at_assign (filled 3 3 (1::int)) 2 2 (Some 9)) \<noteq> filled 3 3 1 \<and>
   operator_plus example_limits (snd (at_assign (filled 3 3 (1::int)) 2 2 (Some 9))) (filled 2 2 2) =
     operator_plus example_limits (filled 3 3 1) (filled 2 2 2) \<and>
   (\<exists>R. operator_plus example_limits (filled 3 3 (1::int)) (filled 2 2 2) = Returns R)"
proof -
  let ?A = "filled 3 3 (1::int)" and ?B = "filled 2 2 (2::int)"
  let ?A' = "snd (at_assign ?A 2 2 (Some 9))"
  have a: "grid_inv ?A" by code_simp
  have a': "grid_inv ?A'" by code_simp
  have b: "grid_inv ?B" by code_simp
  have wa: "within example_limits ?A"
    by (simp add: within_filled constructible_def example_limits_def)
  have wb: "within example_limits ?B"
    by (simp add: within_filled constructible_def example_limits_def)
  have w: "getWidth ?A' = getWidth ?A" by code_simp
  have h: "getHeight ?A' = getHeight ?A" by code_simp
  have n: "?A' \<noteq> ?A" by code_simp
  have m: "min (getWidth ?A) (getWidth ?B) = 2" "min (getHeight ?A) (getHeight ?B) = 2"
    by code_simp+
  have c: "cell ?A' 0 0 = cell ?A 0 0" "cell ?A' 0 1 = cell ?A 0 1"
    "cell ?A' 1 0 = cell ?A 1 0" "cell ?A' 1 1 = cell ?A 1 1"
    by code_simp+
  have o: "\<forall>x y. x < min (getWidth ?A) (getWidth ?B) \<longrightarrow> y < min (getHeight ?A) (getHeight ?B) \<longrightarrow>
           cell ?A' x y = cell ?A x y \<and> cell ?B x y = cell ?B x y"
  proof (intro allI impI)
    fix x y :: nat
    assume "x < min (getWidth ?A) (getWidth ?B)" "y < min (getHeight ?A) (getHeight ?B)"
    then have "x < 2" "y < 2" by (simp_all only: m)
    then have "(x = 0 \<or> x = 1) \<and> (y = 0 \<or> y = 1)" by arith
    with c show "cell ?A' x y = cell ?A x y \<and> cell ?B x y = cell ?B x y"
      by (elim conjE disjE) (simp_all only: simp_thms)
  qed
  note t = operator_plus_overlap_only [OF a a' b b w h refl refl o, of example_limits]
  from t have 1: "operator_plus example_limits ?A' ?B = operator_plus example_limits ?A ?B"
    by (rule conjunct1)
  from t wa wb have 2: "\<exists>R. operator_plus example_limits ?A ?B = Returns R"
    by blast
  from a a' b wa wb n 1 2 show ?thesis by (simp only: simp_thms)
qed

section \<open>The shape of the table over the life of a grid\<close>

text \<open>
  C5, as the code has it. A grid the constructor returns has the width and the height
  asked for and a table of that shape. \<^verbatim>\<open>at\<close> leaves a grid as it is. On a grid with a
  table of the shape its dimensions say, an assignment to a cell through \<^verbatim>\<open>at\<close> keeps
  the shape, the width and the height. A copy, the grid a move constructs, and the target
  after a copy or move assignment are equal to the grid copied, moved or assigned, in
  table and dimensions: an assignment replaces the dimensions of its target. A grid that
  \<^verbatim>\<open>operator+\<close> returns for two grids with tables of the right shape has a table of the
  right shape, and there is one when the operands are within \<^verbatim>\<open>max_size()\<close>. The source
  of a move keeps its width and its height. Nothing is said here about the table of the
  source of a move.
\<close>

theorem grid_inv_preserved:
  fixes g g0 g2 :: "'a::plus Grid"
  shows
    "(\<forall>g' :: 'a Grid. Grid lim w h = Returns g' \<longrightarrow>
        grid_inv g' \<and> getWidth g' = w \<and> getHeight g' = h) \<and>
     snd (at g x y) = g \<and>
     (grid_inv g \<longrightarrow>
        grid_inv (snd (at_assign g x y v)) \<and>
        getWidth (snd (at_assign g x y v)) = getWidth g \<and>
        getHeight (snd (at_assign g x y v)) = getHeight g) \<and>
     copy_ctor g = g \<and>
     copy_assign g0 g = g \<and>
     fst (move_ctor g) = g \<and>
     fst (move_assign leftover g0 g) = g \<and>
     (grid_inv g \<longrightarrow> grid_inv g2 \<longrightarrow>
        (\<forall>r. operator_plus lim g g2 = Returns r \<longrightarrow> grid_inv r)) \<and>
     (grid_inv g \<longrightarrow> grid_inv g2 \<longrightarrow> within lim g \<longrightarrow> within lim g2 \<longrightarrow>
        (\<exists>r. operator_plus lim g g2 = Returns r)) \<and>
     getWidth (snd (move_ctor g)) = getWidth g \<and>
     getHeight (snd (move_ctor g)) = getHeight g \<and>
     getWidth (snd (move_assign leftover g0 g)) = getWidth g \<and>
     getHeight (snd (move_assign leftover g0 g)) = getHeight g"
proof (intro conjI impI allI)
  fix g' :: "'a Grid" assume "Grid lim w h = Returns g'"
  then have "g' = blank w h"
    by (simp add: Grid_Returns)
  then show "grid_inv g'" "getWidth g' = w" "getHeight g' = h"
    by (simp_all add: grid_inv_blank getWidth_def getHeight_def mWidth_blank mHeight_blank)
next
  show "snd (at g x y) = g"
    by (simp add: at_def)
  show "copy_ctor g = g"
    by (rule copy_ctor_id)
  show "copy_assign g0 g = g"
    by (rule copy_assign_rhs)
  show "fst (move_ctor g) = g"
    by (rule move_ctor_fst)
  show "fst (move_assign leftover g0 g) = g"
    by (rule move_assign_fst)
  show "getWidth (snd (move_ctor g)) = getWidth g" "getHeight (snd (move_ctor g)) = getHeight g"
    by (simp_all add: getWidth_def getHeight_def move_ctor_def)
  show "getWidth (snd (move_assign leftover g0 g)) = getWidth g"
    "getHeight (snd (move_assign leftover g0 g)) = getHeight g"
    by (simp_all add: getWidth_def getHeight_def move_assign_def)
next
  assume g: "grid_inv g"
  then show "grid_inv (snd (at_assign g x y v))"
    by (rule at_assign_grid_inv)
  show "getWidth (snd (at_assign g x y v)) = getWidth g"
    "getHeight (snd (at_assign g x y v)) = getHeight g"
    by (simp_all add: getWidth_def getHeight_def at_assign_dims)
next
  fix r assume g: "grid_inv g" "grid_inv g2" and r: "operator_plus lim g g2 = Returns r"
  let ?w = "min (mWidth g) (mWidth g2)" and ?h = "min (mHeight g) (mHeight g2)"
  have "constructible lim ?w ?h"
  proof (rule ccontr)
    assume "\<not> constructible lim ?w ?h"
    then have "operator_plus lim g g2 = Throws length_error"
      by (rule operator_plus_throws)
    with r show False by simp
  qed
  from operator_plus_inv [OF g this] r show "grid_inv r"
    by auto
next
  assume "grid_inv g" "grid_inv g2" "within lim g" "within lim g2"
  then show "\<exists>r. operator_plus lim g g2 = Returns r"
    using operator_plus_inv [of g g2 lim] within_constructible [of g g2 lim] by blast
qed

theorem grid_inv_preserved_witness:
  "Grid example_limits 2 3 = Returns (blank 2 3 :: int Grid) \<and>
   grid_inv (blank 2 3 :: int Grid) \<and> within example_limits (blank 2 3 :: int Grid) \<and>
   grid_inv (snd (at_assign (blank 2 3 :: int Grid) 1 2 (Some 7))) \<and>
   getWidth (snd (at_assign (blank 2 3 :: int Grid) 1 2 (Some 7))) = getWidth (blank 2 3 :: int Grid) \<and>
   copy_assign (blank 1 1) (blank 2 3 :: int Grid) = blank 2 3 \<and>
   fst (move_ctor (blank 2 3 :: int Grid)) = blank 2 3 \<and>
   (\<exists>r. operator_plus example_limits (blank 2 3 :: int Grid) (blank 2 3) = Returns r \<and> grid_inv r)"
proof -
  let ?g = "blank 2 3 :: int Grid"
  have c: "Grid example_limits 2 3 = Returns ?g"
    by (simp add: Grid_eq constructible_def example_limits_def)
  have w: "within example_limits ?g"
    by (simp add: within_blank constructible_def example_limits_def)
  note t = grid_inv_preserved [where lim = example_limits and w = 2 and h = 3 and g = ?g
      and x = 1 and y = 2 and v = "Some 7" and ?g0.0 = "blank 1 1" and leftover = "[]"
      and ?g2.0 = ?g]
  from t c have g: "grid_inv ?g"
    by blast
  from t g have 1: "grid_inv (snd (at_assign ?g 1 2 (Some 7)))"
    "getWidth (snd (at_assign ?g 1 2 (Some 7))) = getWidth ?g"
    by blast+
  from t have 2: "copy_assign (blank 1 1) ?g = ?g" "fst (move_ctor ?g) = ?g"
    by blast+
  from t g w obtain r where r: "operator_plus example_limits ?g ?g = Returns r"
    by blast
  with t g have "grid_inv r"
    by blast
  with r have 3: "\<exists>r. operator_plus example_limits ?g ?g = Returns r \<and> grid_inv r"
    by blast
  from c g w 1 2 3 show ?thesis
    by (simp only: simp_thms)
qed

text \<open>
  The claim as first stated fails twice. The grid a move constructor has moved from keeps
  width 1 and height 1 over an empty table, so that \<^verbatim>\<open>at(0, 0)\<close> passes the check of the
  coordinates and then indexes outside the table. And a grid constructed with width 1 has
  width 2 once a grid of width 2 has been assigned to it.
\<close>

theorem grid_inv_moved_from_counterexample:
  "Grid example_limits 1 1 = Returns (blank 1 1 :: int Grid) \<and>
   grid_inv (blank 1 1 :: int Grid) \<and>
   \<not> grid_inv (snd (move_ctor (blank 1 1 :: int Grid))) \<and>
   getWidth (snd (move_ctor (blank 1 1 :: int Grid))) = 1 \<and>
   mCells (snd (move_ctor (blank 1 1 :: int Grid))) = [] \<and>
   at_const (snd (move_ctor (blank 1 1 :: int Grid))) 0 0 = Undefined \<and>
   Grid example_limits 2 2 = Returns (blank 2 2 :: int Grid) \<and>
   getWidth (copy_assign (blank 1 1 :: int Grid) (blank 2 2)) \<noteq> getWidth (blank 1 1 :: int Grid)"
proof -
  have 1: "Grid example_limits 1 1 = Returns (blank 1 1 :: int Grid)"
    "Grid example_limits 2 2 = Returns (blank 2 2 :: int Grid)"
    by (simp_all add: Grid_eq constructible_def example_limits_def)
  have 2: "grid_inv (blank 1 1 :: int Grid) \<and>
   \<not> grid_inv (snd (move_ctor (blank 1 1 :: int Grid))) \<and>
   getWidth (snd (move_ctor (blank 1 1 :: int Grid))) = 1 \<and>
   mCells (snd (move_ctor (blank 1 1 :: int Grid))) = [] \<and>
   at_const (snd (move_ctor (blank 1 1 :: int Grid))) 0 0 = Undefined \<and>
   getWidth (copy_assign (blank 1 1 :: int Grid) (blank 2 2)) \<noteq> getWidth (blank 1 1 :: int Grid)"
    by code_simp
  from 1 2 show ?thesis
    by (simp only: simp_thms)
qed

section \<open>What can throw\<close>

text \<open>
  C6, as the code has it. An exception thrown by \<^verbatim>\<open>at\<close>, in either overload, is the
  out-of-range error. The constructor returns a grid of the width and height asked for
  when the width is at most the \<^verbatim>\<open>max_size()\<close> of the table and the height at most the
  \<^verbatim>\<open>max_size()\<close> of a column, or the width is 0; otherwise it throws
  \<^verbatim>\<open>std::length_error\<close>. A copy and the target of a copy or move assignment are the grid
  copied or assigned. \<^verbatim>\<open>operator+\<close> returns a grid for operands whose tables have the
  shape their dimensions say and are within \<^verbatim>\<open>max_size()\<close>. \<^verbatim>\<open>getWidth\<close> and
  \<^verbatim>\<open>getHeight\<close> are functions of the grid alone; \<^verbatim>\<open>at\<close> and an assignment through
  \<^verbatim>\<open>at\<close> do not change what they return, for a copy they return what they return for
  the grid copied, and after an assignment to the grid they return the dimensions of the
  grid assigned.
\<close>

theorem only_at_throws:
  fixes g g0 A B :: "'a::plus Grid"
  shows
    "(\<forall>e. at_const g x y = Throws e \<longrightarrow> e = out_of_range) \<and>
     (\<forall>e. fst (at g x y) = Throws e \<longrightarrow> e = out_of_range) \<and>
     (w \<le> table_max_size lim \<and> (w = 0 \<or> h \<le> column_max_size lim) \<longrightarrow>
        (\<exists>g' :: 'a Grid. Grid lim w h = Returns g' \<and> getWidth g' = w \<and> getHeight g' = h)) \<and>
     (\<not> (w \<le> table_max_size lim \<and> (w = 0 \<or> h \<le> column_max_size lim)) \<longrightarrow>
        Grid lim w h = (Throws length_error :: 'a Grid result)) \<and>
     copy_ctor g = g \<and>
     copy_assign g0 g = g \<and>
     fst (move_assign leftover g0 g) = g \<and>
     (grid_inv A \<longrightarrow> grid_inv B \<longrightarrow> within lim A \<longrightarrow> within lim B \<longrightarrow>
        (\<exists>R. operator_plus lim A B = Returns R)) \<and>
     getWidth (snd (at g x y)) = getWidth g \<and> getHeight (snd (at g x y)) = getHeight g \<and>
     getWidth (snd (at_assign g x y v)) = getWidth g \<and>
     getHeight (snd (at_assign g x y v)) = getHeight g \<and>
     getWidth (copy_ctor g) = getWidth g \<and> getHeight (copy_ctor g) = getHeight g \<and>
     getWidth (copy_assign g0 g) = getWidth g \<and> getHeight (copy_assign g0 g) = getHeight g \<and>
     getWidth (fst (move_assign leftover g0 g)) = getWidth g \<and>
     getHeight (fst (move_assign leftover g0 g)) = getHeight g"
proof (intro conjI allI impI)
  fix e assume "at_const g x y = Throws e"
  then show "e = out_of_range" by (simp add: at_const_Throws)
next
  fix e assume "fst (at g x y) = Throws e"
  then show "e = out_of_range" by (simp add: at_def at_const_Throws)
next
  assume "w \<le> table_max_size lim \<and> (w = 0 \<or> h \<le> column_max_size lim)"
  then have "Grid lim w h = Returns (blank w h :: 'a Grid)"
    by (simp add: Grid_eq constructible_def)
  then show "\<exists>g' :: 'a Grid. Grid lim w h = Returns g' \<and> getWidth g' = w \<and> getHeight g' = h"
    by (simp add: getWidth_def getHeight_def mWidth_blank mHeight_blank)
next
  assume "\<not> (w \<le> table_max_size lim \<and> (w = 0 \<or> h \<le> column_max_size lim))"
  then show "Grid lim w h = (Throws length_error :: 'a Grid result)"
    by (simp add: Grid_eq constructible_def)
next
  assume "grid_inv A" "grid_inv B" "within lim A" "within lim B"
  then show "\<exists>R. operator_plus lim A B = Returns R"
    using operator_plus_inv [of A B lim] within_constructible [of A B lim] by blast
next
  show "copy_ctor g = g"
    by (rule copy_ctor_id)
  show "copy_assign g0 g = g"
    by (rule copy_assign_rhs)
  show "fst (move_assign leftover g0 g) = g"
    by (rule move_assign_fst)
  show "getWidth (copy_ctor g) = getWidth g" "getHeight (copy_ctor g) = getHeight g"
    by (simp_all add: copy_ctor_id)
  show "getWidth (snd (at g x y)) = getWidth g" "getHeight (snd (at g x y)) = getHeight g"
    by (simp_all add: at_def)
  show "getWidth (snd (at_assign g x y v)) = getWidth g"
    "getHeight (snd (at_assign g x y v)) = getHeight g"
    by (simp_all add: getWidth_def getHeight_def at_assign_dims)
  show "getWidth (copy_assign g0 g) = getWidth g" "getHeight (copy_assign g0 g) = getHeight g"
    by (simp_all add: copy_assign_rhs)
  show "getWidth (fst (move_assign leftover g0 g)) = getWidth g"
    "getHeight (fst (move_assign leftover g0 g)) = getHeight g"
    by (simp_all add: move_assign_fst)
qed

theorem only_at_throws_witness:
  "at_const (blank 2 3 :: int Grid) 2 0 = Throws out_of_range \<and>
   (\<exists>g' :: int Grid. Grid example_limits 2 3 = Returns g' \<and> getWidth g' = 2 \<and> getHeight g' = 3) \<and>
   Grid example_limits 1 SIZE_MAX = (Throws length_error :: int Grid result) \<and>
   grid_inv (filled 3 3 (1::int)) \<and> grid_inv (filled 2 4 (2::int)) \<and>
   within example_limits (filled 3 3 (1::int)) \<and> within example_limits (filled 2 4 (2::int)) \<and>
   (\<exists>R. operator_plus example_limits (filled 3 3 (1::int)) (filled 2 4 2) = Returns R) \<and>
   getWidth (snd (at_assign (blank 2 3 :: int Grid) 2 0 (Some 1))) = getWidth (blank 2 3 :: int Grid)"
proof -
  let ?A = "filled 3 3 (1::int)" and ?B = "filled 2 4 (2::int)"
  have a: "grid_inv ?A" by code_simp
  have b: "grid_inv ?B" by code_simp
  have a': "within example_limits ?A"
    by (simp add: within_filled constructible_def example_limits_def)
  have b': "within example_limits ?B"
    by (simp add: within_filled constructible_def example_limits_def)
  have c: "at_const (blank 2 3 :: int Grid) 2 0 = Throws out_of_range" by code_simp
  have p: "(2::nat) \<le> table_max_size example_limits \<and>
           ((2::nat) = 0 \<or> (3::nat) \<le> column_max_size example_limits)"
    by (simp add: example_limits_def)
  have q: "\<not> ((1::nat) \<le> table_max_size example_limits \<and>
           ((1::nat) = 0 \<or> SIZE_MAX \<le> column_max_size example_limits))"
    by (simp add: example_limits_def SIZE_MAX_def)
  from only_at_throws [where lim = example_limits and w = 2 and h = 3, where ?'a = int] p
  have 0: "\<exists>g' :: int Grid. Grid example_limits 2 3 = Returns g' \<and> getWidth g' = 2 \<and> getHeight g' = 3"
    by blast
  from only_at_throws [where lim = example_limits and w = 1 and h = SIZE_MAX, where ?'a = int] q
  have 1: "Grid example_limits 1 SIZE_MAX = (Throws length_error :: int Grid result)"
    by blast
  from only_at_throws [where lim = example_limits and A = ?A and B = ?B] a b a' b'
  have 2: "\<exists>R. operator_plus example_limits ?A ?B = Returns R"
    by blast
  from only_at_throws [where g = "blank 2 3 :: int Grid" and x = 2 and y = 0 and v = "Some 1"]
  have 3: "getWidth (snd (at_assign (blank 2 3 :: int Grid) 2 0 (Some 1))) =
           getWidth (blank 2 3 :: int Grid)"
    by blast
  from a b a' b' c 0 1 2 3 show ?thesis by (simp only: simp_thms)
qed

text \<open>
  The claim as first stated fails twice. The constructor throws too, and another kind of
  error: with the limits of a 64-bit implementation, the largest \<^verbatim>\<open>size_t\<close> as width is
  refused. And a grid constructed 1 by 1 returns 3 and 2 once a 3 by 2 grid has been
  assigned to it.
\<close>

theorem construction_throws_counterexample:
  "Grid example_limits SIZE_MAX 1 = (Throws length_error :: int Grid result) \<and>
   Grid example_limits 1 1 = Returns (blank 1 1 :: int Grid) \<and>
   Grid example_limits 3 2 = Returns (blank 3 2 :: int Grid) \<and>
   getWidth (blank 1 1 :: int Grid) = 1 \<and> getHeight (blank 1 1 :: int Grid) = 1 \<and>
   getWidth (copy_assign (blank 1 1 :: int Grid) (blank 3 2)) = 3 \<and>
   getHeight (copy_assign (blank 1 1 :: int Grid) (blank 3 2)) = 2"
proof -
  have 1: "Grid example_limits SIZE_MAX 1 = (Throws length_error :: int Grid result)"
    "Grid example_limits 1 1 = Returns (blank 1 1 :: int Grid)"
    "Grid example_limits 3 2 = Returns (blank 3 2 :: int Grid)"
    by (simp_all add: Grid_eq constructible_def example_limits_def SIZE_MAX_def)
  have 2: "getWidth (blank 1 1 :: int Grid) = 1 \<and> getHeight (blank 1 1 :: int Grid) = 1 \<and>
   getWidth (copy_assign (blank 1 1 :: int Grid) (blank 3 2)) = 3 \<and>
   getHeight (copy_assign (blank 1 1 :: int Grid) (blank 3 2)) = 2"
    by code_simp
  from 1 2 show ?thesis
    by (simp only: simp_thms)
qed

end
